theory Spec2Isabelle
  imports Complex_Main "HOL-Library.Product_Lexorder"
begin

section \<open>Welch's method: a shallow embedding of \<^verbatim>\<open>welch.py\<close>\<close>

text \<open>
  Conventions of the embedding.
  \<^item> Python integers are \<^typ>\<open>int\<close>; \<^verbatim>\<open>//\<close> and \<^verbatim>\<open>%\<close> are \<open>div\<close> and \<open>mod\<close> on
    \<^typ>\<open>int\<close> (both round towards minus infinity, as Python does).
  \<^item> Floating-point samples are idealised as \<^typ>\<open>real\<close> and \<^typ>\<open>complex\<close> numbers:
    rounding is not modelled. Where the code would produce a non-finite float (a division
    of a numpy scalar by zero) the model stops with \<open>NonFiniteFloat\<close>, since the reals
    have no infinity; the code itself only warns there.
  \<^item> Signals are one-dimensional and the transform axis is the default \<^verbatim>\<open>axis=-1\<close>.
  \<^item> Every \<^verbatim>\<open>raise\<close> is a value \<open>Inl e\<close> of the result type \<open>error + 'a\<close>.
\<close>

subsection \<open>Exceptions\<close>

datatype error =
    ValueError string
  | NameError string
  | TypeError string
  | ZeroDivisionError
  | UnsafeView
  | NonFiniteFloat

text \<open>
  \<open>ValueError\<close> is the spec's \<^verbatim>\<open>InvalidArgument\<close>. \<open>UnsafeView\<close> marks a strided view
  that would read outside its buffer (numpy gives no defined result there).
\<close>

fun is_ValueError :: "error \<Rightarrow> bool" where
  "is_ValueError (ValueError m) = True"
| "is_ValueError e = False"

definition bind_err :: "error + 'a \<Rightarrow> ('a \<Rightarrow> error + 'b) \<Rightarrow> error + 'b" where
  "bind_err r f = (case r of Inl e \<Rightarrow> Inl e | Inr v \<Rightarrow> f v)"

subsection \<open>Segmenter: the strided view of \<^verbatim>\<open>_fft_helper\<close>\<close>

text \<open>
  \<^verbatim>\<open>
    if nperseg == 1 and noverlap == 0:
        result = x[..., np.newaxis]
    else:
        step = nperseg - noverlap
        shape = x.shape[:-1]+((x.shape[-1]-noverlap)//step, nperseg)
        strides = x.strides[:-1]+(step*x.strides[-1], x.strides[-1])
        result = np.lib.stride_tricks.as_strided(x, shape=shape, strides=strides)
  \<close>
  Row \<open>k\<close> of the view starts at sample \<open>k * step\<close> and holds \<open>nperseg\<close> samples.
  A negative entry of \<^verbatim>\<open>shape\<close> makes \<^verbatim>\<open>as_strided\<close> raise \<^verbatim>\<open>ValueError\<close>.
\<close>

definition view_in_bounds :: "int \<Rightarrow> int \<Rightarrow> int \<Rightarrow> int \<Rightarrow> bool" where
  "view_in_bounds N nseg nperseg step =
     (nseg = 0 \<or> nperseg = 0 \<or>
      (0 \<le> min 0 ((nseg - 1) * step) \<and> max 0 ((nseg - 1) * step) + nperseg \<le> N))"

definition segment_rows :: "'a list \<Rightarrow> int \<Rightarrow> int \<Rightarrow> int \<Rightarrow> 'a list list" where
  "segment_rows x nseg nperseg step =
     map (\<lambda>k. take (nat nperseg) (drop (k * nat step) x)) [0..<nat nseg]"

definition segment_view :: "'a list \<Rightarrow> int \<Rightarrow> int \<Rightarrow> error + 'a list list" where
  "segment_view x nperseg noverlap =
     (if nperseg = 1 \<and> noverlap = 0 then Inr (map (\<lambda>v. [v]) x)
      else
        let step = nperseg - noverlap in
        if step = 0 then Inl ZeroDivisionError
        else
          let nseg = (int (length x) - noverlap) div step in
          if nseg < 0 \<or> nperseg < 0
          then Inl (ValueError ''negative dimensions are not allowed'')
          else if \<not> view_in_bounds (int (length x)) nseg nperseg step then Inl UnsafeView
          else Inr (segment_rows x nseg nperseg step))"

subsection \<open>Window catalogue\<close>

definition extend_w :: "int \<Rightarrow> bool \<Rightarrow> int \<times> bool" where
  "extend_w M symm = (if \<not> symm then (M + 1, True) else (M, False))"

text \<open>\<^verbatim>\<open>int(M) != M\<close> is always false for the integer lengths of the model.\<close>

definition len_guards :: "int \<Rightarrow> error + bool" where
  "len_guards M =
     (if M < 0 then Inl (ValueError ''Window length M must be a non-negative integer'')
      else Inr (M \<le> 1))"

definition truncate_w :: "'a list \<Rightarrow> bool \<Rightarrow> 'a list" where
  "truncate_w w needed = (if needed then butlast w else w)"

definition linspace :: "real \<Rightarrow> real \<Rightarrow> nat \<Rightarrow> real list" where
  "linspace start stop num =
     (if num = 1 then [start]
      else map (\<lambda>i. start + real i * ((stop - start) / real (num - 1))) [0..<num])"

definition general_cosine :: "int \<Rightarrow> real list \<Rightarrow> bool \<Rightarrow> error + real list" where
  "general_cosine M a symm =
     bind_err (len_guards M) (\<lambda>small.
       if small then Inr (replicate (nat M) 1)
       else
         let (M', needs_trunc) = extend_w M symm;
             fac = linspace (- pi) pi (nat M');
             w = fold (\<lambda>k w. map2 (+) w (map (\<lambda>t. a ! k * cos (real k * t)) fac))
                   [0..<length a] (replicate (nat M') 0)
         in Inr (truncate_w w needs_trunc))"

definition general_hamming :: "int \<Rightarrow> real \<Rightarrow> bool \<Rightarrow> error + real list" where
  "general_hamming M alpha symm = general_cosine M [alpha, 1 - alpha] symm"

definition hann :: "int \<Rightarrow> bool \<Rightarrow> error + real list" where
  "hann M symm = general_hamming M (1 / 2) symm"

type_synonym winfunc = "int \<Rightarrow> bool \<Rightarrow> error + real list"

definition win_equiv_raw :: "(string list \<times> (winfunc \<times> bool)) list" where
  "win_equiv_raw = [([''hanning'', ''hann'', ''han''], (hann, False))]"

definition win_equiv :: "string \<rightharpoonup> winfunc" where
  "win_equiv =
     fold (\<lambda>(k, v) m. fold (\<lambda>key m. m(key \<mapsto> fst v)) k m) win_equiv_raw Map.empty"

definition needs_param :: "string set" where
  "needs_param =
     fold (\<lambda>(k, v) s. if snd v then s \<union> set k else s) win_equiv_raw {}"

text \<open>
  The \<^verbatim>\<open>window\<close> argument: a number (anything \<^verbatim>\<open>float()\<close> converts), a string that
  \<^verbatim>\<open>float()\<close> rejects, a tuple of a name and numeric parameters, or a one-dimensional
  array of real coefficients.
\<close>

datatype window_arg =
    WinNum real
  | WinStr string
  | WinTuple string "real list"
  | WinArray "real list"

definition get_window :: "window_arg \<Rightarrow> int \<Rightarrow> bool \<Rightarrow> error + real list" where
  "get_window window Nx fftbins =
     (let symm = \<not> fftbins in
      case window of
        WinNum beta \<Rightarrow> hann Nx symm
      | WinTuple winstr args \<Rightarrow>
          (case win_equiv winstr of
             None \<Rightarrow> Inl (ValueError ''Unknown window type.'')
           | Some winfunc \<Rightarrow>
               if args = [] then winfunc Nx symm
               else Inl (TypeError ''too many positional arguments''))
      | WinStr winstr \<Rightarrow>
          if winstr \<in> needs_param
          then Inl (ValueError ''The window needs one or more parameters -- pass a tuple.'')
          else (case win_equiv winstr of
                  None \<Rightarrow> Inl (ValueError ''Unknown window type.'')
                | Some winfunc \<Rightarrow> winfunc Nx symm)
      | WinArray a \<Rightarrow> Inl (ValueError ''as window type is not supported.''))"

text \<open>
  \<^verbatim>\<open>_triage_segments\<close>. The module never imports \<^verbatim>\<open>warnings\<close>, so evaluating
  \<^verbatim>\<open>warnings.warn\<close> raises \<^verbatim>\<open>NameError\<close>. A number as window becomes a
  zero-dimensional array under \<^verbatim>\<open>np.asarray\<close>.
\<close>

fun is_str_or_tuple :: "window_arg \<Rightarrow> bool" where
  "is_str_or_tuple (WinStr s) = True"
| "is_str_or_tuple (WinTuple s args) = True"
| "is_str_or_tuple w = False"

definition triage_segments ::
  "window_arg \<Rightarrow> int option \<Rightarrow> int \<Rightarrow> error + (real list \<times> int)" where
  "triage_segments window nperseg input_length =
     (if is_str_or_tuple window then
        let nperseg = (case nperseg of None \<Rightarrow> 256 | Some n \<Rightarrow> n) in
        if nperseg > input_length then Inl (NameError ''warnings'')
        else bind_err (get_window window nperseg True) (\<lambda>win. Inr (win, nperseg))
      else
        case window of
          WinArray win \<Rightarrow>
            if input_length < int (length win)
            then Inl (ValueError ''window is longer than input signal'')
            else (case nperseg of
                    None \<Rightarrow> Inr (win, int (length win))
                  | Some n \<Rightarrow>
                      if n \<noteq> int (length win)
                      then Inl (ValueError
                             ''value specified for nperseg is different from length of window'')
                      else Inr (win, n))
        | _ \<Rightarrow> Inl (ValueError ''window must be 1-D''))"

subsection \<open>Averaging\<close>

text \<open>
  \<^verbatim>\<open>
  def _median_bias(n):
      ii_2 = 2 * np.arange(1., (n-1) // 2 + 1)
      return 1 + np.sum(1. / (ii_2 + 1) - 1. / ii_2)
  \<close>
\<close>

definition median_bias :: "int \<Rightarrow> real" where
  "median_bias n =
     (let ii_2 = map (\<lambda>i. 2 * real i) [1..<nat ((n - 1) div 2 + 1)]
      in 1 + sum_list (map (\<lambda>v. 1 / (v + 1) - 1 / v) ii_2))"

text \<open>
  The bias factor as the specification words it: one plus the sum, over the odd
  \<open>i = 1, 3, 5, \<dots>\<close> with \<open>i \<le> n - 2\<close>, of \<open>1 / (i + 1) - 1 / i\<close>.
\<close>

definition spec_median_bias :: "int \<Rightarrow> real" where
  "spec_median_bias n =
     1 + sum_list (map (\<lambda>i. 1 / (real i + 1) - 1 / real i)
                     (filter odd [1..<nat (n - 2 + 1)]))"

text \<open>An n-dimensional array: its shape and its elements in row-major order.\<close>

record 'a ndarray =
  shape :: "nat list"
  elems :: "'a list"

datatype spectrum = RealArr "real ndarray" | CplxArr "complex ndarray"

fun spectrum_shape :: "spectrum \<Rightarrow> nat list" where
  "spectrum_shape (RealArr a) = shape a"
| "spectrum_shape (CplxArr a) = shape a"

text \<open>An array is well formed when it holds as many elements as its shape says.\<close>

definition well_formed :: "spectrum \<Rightarrow> bool" where
  "well_formed P =
     (case P of RealArr a \<Rightarrow> length (elems a) = prod_list (shape a)
              | CplxArr a \<Rightarrow> length (elems a) = prod_list (shape a))"

text \<open>The one-dimensional slices along the last axis, in row-major order.\<close>

definition lanes :: "'a ndarray \<Rightarrow> 'a list list" where
  "lanes a =
     (let n = last (shape a)
      in map (\<lambda>i. take n (drop (i * n) (elems a))) [0..<prod_list (butlast (shape a))])"

definition reduce_last :: "('a list \<Rightarrow> 'b) \<Rightarrow> 'a ndarray \<Rightarrow> 'b ndarray" where
  "reduce_last f a = \<lparr>shape = butlast (shape a), elems = map f (lanes a)\<rparr>"

definition mean :: "'a::field list \<Rightarrow> 'a" where
  "mean xs = sum_list xs / of_nat (length xs)"

text \<open>
  \<^verbatim>\<open>np.median\<close>: the middle element of the sorted lane, or the mean of the two middle
  elements; numpy orders complex numbers lexicographically.
\<close>

definition middle :: "'a::field list \<Rightarrow> 'a" where
  "middle s =
     (let n = length s
      in if odd n then s ! (n div 2) else (s ! (n div 2 - 1) + s ! (n div 2)) / 2)"

definition median_real :: "real list \<Rightarrow> real" where
  "median_real xs = middle (sort xs)"

definition median_cplx :: "complex list \<Rightarrow> complex" where
  "median_cplx zs = middle (sort_key (\<lambda>z. (Re z, Im z)) zs)"

definition np_median :: "spectrum \<Rightarrow> spectrum" where
  "np_median P =
     (case P of RealArr a \<Rightarrow> RealArr (reduce_last median_real a)
              | CplxArr a \<Rightarrow> CplxArr (reduce_last median_cplx a))"

definition np_mean :: "spectrum \<Rightarrow> spectrum" where
  "np_mean P =
     (case P of RealArr a \<Rightarrow> RealArr (reduce_last mean a)
              | CplxArr a \<Rightarrow> CplxArr (reduce_last mean a))"

definition divide_by :: "spectrum \<Rightarrow> real \<Rightarrow> spectrum" where
  "divide_by P c =
     (case P of RealArr a \<Rightarrow> RealArr (a\<lparr>elems := map (\<lambda>v. v / c) (elems a)\<rparr>)
              | CplxArr a \<Rightarrow> CplxArr (a\<lparr>elems := map (\<lambda>v. v / of_real c) (elems a)\<rparr>))"

definition reshape :: "spectrum \<Rightarrow> nat list \<Rightarrow> spectrum" where
  "reshape P shp =
     (case P of RealArr a \<Rightarrow> RealArr (a\<lparr>shape := shp\<rparr>)
              | CplxArr a \<Rightarrow> CplxArr (a\<lparr>shape := shp\<rparr>))"

definition real_part :: "spectrum \<Rightarrow> spectrum" where
  "real_part P =
     (case P of RealArr a \<Rightarrow> RealArr a
              | CplxArr a \<Rightarrow> RealArr \<lparr>shape = shape a, elems = map Re (elems a)\<rparr>)"

fun is_real_arr :: "spectrum \<Rightarrow> bool" where
  "is_real_arr (RealArr a) = True"
| "is_real_arr (CplxArr a) = False"

text \<open>
  The averaging block of \<^verbatim>\<open>csd\<close>:
  \<^verbatim>\<open>
    if len(Pxy.shape) >= 2 and Pxy.size > 0:
        if Pxy.shape[-1] > 1:
            if average == 'median':
                Pxy = np.median(Pxy, axis=-1) / _median_bias(Pxy.shape[-1])
            elif average == 'mean':
                Pxy = Pxy.mean(axis=-1)
            else:
                raise ValueError(...)
        else:
            Pxy = np.reshape(Pxy, Pxy.shape[:-1])
  \<close>
\<close>

definition csd_average :: "string \<Rightarrow> spectrum \<Rightarrow> error + spectrum" where
  "csd_average average Pxy =
     (let shp = spectrum_shape Pxy in
      if length shp \<ge> 2 \<and> prod_list shp > 0 then
        if last shp > 1 then
          if average = ''median''
          then Inr (divide_by (np_median Pxy) (median_bias (int (last shp))))
          else if average = ''mean'' then Inr (np_mean Pxy)
          else Inl (ValueError ''average must be median or mean'')
        else Inr (reshape Pxy (butlast shp))
      else Inr Pxy)"

subsection \<open>Boundary extension\<close>

text \<open>
  With \<open>1 \<le> n \<le> len - 1\<close> the slice \<^verbatim>\<open>x[n:0:-1]\<close> is \<open>x[n], \<dots>, x[1]\<close> and the slice
  \<^verbatim>\<open>x[-2:-(n+2):-1]\<close> is \<open>x[len-2], \<dots>, x[len-n-1]\<close>.
\<close>

definition too_big :: "error" where
  "too_big = ValueError ''The extension length n is too big. It must not exceed x.shape[axis]-1''"

definition even_ext :: "'a list \<Rightarrow> int \<Rightarrow> error + 'a list" where
  "even_ext x n =
     (if n < 1 then Inr x
      else if n > int (length x) - 1 then Inl too_big
      else
        let left_ext = rev (take (nat n) (drop 1 x));
            right_ext = take (nat n) (drop 1 (rev x))
        in Inr (left_ext @ x @ right_ext))"

text \<open>
  \<^verbatim>\<open>odd_ext\<close> does arithmetic on the samples. The samples of the model are floating-point
  numbers idealised as elements of a field of characteristic zero (the reals, the complex
  numbers); arrays of machine integers, on which \<^verbatim>\<open>2 * end - x\<close> wraps around, are outside
  the model.
\<close>

definition odd_ext :: "'a::field_char_0 list \<Rightarrow> int \<Rightarrow> error + 'a list" where
  "odd_ext x n =
     (if n < 1 then Inr x
      else if n > int (length x) - 1 then Inl too_big
      else
        let left_end = hd x;
            left_ext = rev (take (nat n) (drop 1 x));
            right_end = last x;
            right_ext = take (nat n) (drop 1 (rev x))
        in Inr (map (\<lambda>v. 2 * left_end - v) left_ext @ x
                @ map (\<lambda>v. 2 * right_end - v) right_ext))"

text \<open>
  \<^verbatim>\<open>const_ext\<close> and \<^verbatim>\<open>zero_ext\<close> have no length check. On an empty signal the end
  slices are empty, and \<^verbatim>\<open>ones * left_end\<close> broadcasts a length-\<open>n\<close> array against a
  length-0 array, which numpy allows only for \<open>n = 1\<close>.
\<close>

definition const_ext :: "'a list \<Rightarrow> int \<Rightarrow> error + 'a list" where
  "const_ext x n =
     (if n < 1 then Inr x
      else if x = [] then
        (if n = 1 then Inr []
         else Inl (ValueError ''operands could not be broadcast together''))
      else
        let left_ext = replicate (nat n) (hd x);
            right_ext = replicate (nat n) (last x)
        in Inr (left_ext @ x @ right_ext))"

definition zero_ext :: "'a::zero list \<Rightarrow> int \<Rightarrow> error + 'a list" where
  "zero_ext x n =
     (if n < 1 then Inr x
      else let zeros = replicate (nat n) 0 in Inr (zeros @ x @ zeros))"

text \<open>
  The dictionary \<^verbatim>\<open>boundary_funcs\<close>: the key \<^verbatim>\<open>None\<close> is present and maps to \<^verbatim>\<open>None\<close>.
\<close>

type_synonym ext_func = "complex list \<Rightarrow> int \<Rightarrow> error + complex list"

definition boundary_funcs :: "string option \<rightharpoonup> ext_func option" where
  "boundary_funcs =
     [Some ''even'' \<mapsto> Some even_ext,
      Some ''odd'' \<mapsto> Some odd_ext,
      Some ''constant'' \<mapsto> Some const_ext,
      Some ''zeros'' \<mapsto> Some zero_ext,
      None \<mapsto> None]"

subsection \<open>Signals\<close>

text \<open>
  An input is a real or a complex array; the engine works on its samples as complex
  numbers and remembers \<^verbatim>\<open>np.iscomplexobj\<close>. The second input of \<^verbatim>\<open>csd\<close> is either
  the very same object as the first (\<^verbatim>\<open>y is x\<close>) or another array.
\<close>

datatype signal = RealSig "real list" | CplxSig "complex list"

fun samples :: "signal \<Rightarrow> complex list" where
  "samples (RealSig a) = map complex_of_real a"
| "samples (CplxSig a) = a"

fun iscomplexobj :: "signal \<Rightarrow> bool" where
  "iscomplexobj (RealSig a) = False"
| "iscomplexobj (CplxSig a) = True"

datatype yarg = SameObject | Other signal

subsection \<open>Detrending\<close>

text \<open>
  \<^verbatim>\<open>signaltools_detrend\<close> along the last axis. The linear branch calls \<^verbatim>\<open>_prod\<close>, a name
  the module never defines, so it raises \<^verbatim>\<open>NameError\<close> before any fit is made.
\<close>

definition signaltools_detrend :: "complex list list \<Rightarrow> string \<Rightarrow> error + complex list list" where
  "signaltools_detrend d type =
     (if type \<notin> set [''linear'', ''l'', ''constant'', ''c'']
      then Inl (ValueError ''Trend type must be linear or constant.'')
      else if type \<in> set [''constant'', ''c'']
      then Inr (map (\<lambda>row. map (\<lambda>v. v - mean row) row) d)
      else Inl (NameError ''_prod''))"

text \<open>
  The \<^verbatim>\<open>detrend\<close> argument is \<^verbatim>\<open>False\<close> or a string (an empty string is falsy too);
  user-supplied callables are outside the model.
\<close>

datatype detrend_arg = DetrendFalse | DetrendStr string

definition detrend_func :: "detrend_arg \<Rightarrow> complex list list \<Rightarrow> error + complex list list" where
  "detrend_func detrend d =
     (case detrend of
        DetrendFalse \<Rightarrow> Inr d
      | DetrendStr s \<Rightarrow> if s = [] then Inr d else signaltools_detrend d s)"

subsection \<open>Fourier transforms of numpy\<close>

definition dft :: "complex list \<Rightarrow> complex list" where
  "dft a =
     (let n = length a
      in map (\<lambda>k. sum_list (map (\<lambda>j. a ! j * cis (- 2 * pi * real j * real k / real n))
                              [0..<n]))
           [0..<n])"

text \<open>The argument \<^verbatim>\<open>n\<close> of the transforms crops the input or pads it with zeros.\<close>

definition fit_length :: "nat \<Rightarrow> complex list \<Rightarrow> complex list" where
  "fit_length n a = take n a @ replicate (n - length a) 0"

definition sp_fft_fft :: "complex list list \<Rightarrow> int \<Rightarrow> error + complex list list" where
  "sp_fft_fft x n =
     (if n < 1 then Inl (ValueError ''Invalid number of FFT data points'')
      else Inr (map (\<lambda>row. dft (fit_length (nat n) row)) x))"

definition sp_fft_rfft :: "real list list \<Rightarrow> int \<Rightarrow> error + complex list list" where
  "sp_fft_rfft x n =
     (if n < 1 then Inl (ValueError ''Invalid number of FFT data points'')
      else Inr (map (\<lambda>row. take (nat n div 2 + 1)
                             (dft (fit_length (nat n) (map complex_of_real row)))) x))"

definition sp_fft_fftfreq :: "int \<Rightarrow> real \<Rightarrow> error + real list" where
  "sp_fft_fftfreq n d =
     (if real_of_int n * d = 0 then Inl ZeroDivisionError
      else if n < 0 then Inl (ValueError ''negative dimensions are not allowed'')
      else
        let val = 1 / (real_of_int n * d)
        in Inr (map (\<lambda>i. real_of_int i * val) ([0..(n - 1) div 2] @ [- (n div 2)..-1])))"

definition sp_fft_rfftfreq :: "int \<Rightarrow> real \<Rightarrow> error + real list" where
  "sp_fft_rfftfreq n d =
     (if real_of_int n * d = 0 then Inl ZeroDivisionError
      else
        let val = 1 / (real_of_int n * d)
        in Inr (map (\<lambda>i. real_of_int i * val) [0..n div 2]))"

subsection \<open>Windowed transforms: \<^verbatim>\<open>_fft_helper\<close>\<close>

text \<open>\<^verbatim>\<open>win * result\<close> broadcasts the window against every row.\<close>

definition win_mul :: "complex list \<Rightarrow> complex list \<Rightarrow> error + complex list" where
  "win_mul win row =
     (if length win = length row then Inr (map2 (*) win row)
      else if length win = 1 then Inr (map (\<lambda>v. hd win * v) row)
      else if length row = 1 then Inr (map (\<lambda>w. w * hd row) win)
      else Inl (ValueError ''operands could not be broadcast together''))"

fun sequence_err :: "(error + 'a) list \<Rightarrow> error + 'a list" where
  "sequence_err [] = Inr []"
| "sequence_err (r # rs) =
     bind_err r (\<lambda>v. bind_err (sequence_err rs) (\<lambda>vs. Inr (v # vs)))"

definition apply_window :: "real list \<Rightarrow> complex list list \<Rightarrow> error + complex list list" where
  "apply_window win result = sequence_err (map (win_mul (map complex_of_real win)) result)"

definition fft_helper ::
  "complex list \<Rightarrow> real list \<Rightarrow> (complex list list \<Rightarrow> error + complex list list) \<Rightarrow>
   int \<Rightarrow> int \<Rightarrow> int \<Rightarrow> string \<Rightarrow> error + complex list list" where
  "fft_helper x win detrend_fn nperseg noverlap nfft sides =
     bind_err (segment_view x nperseg noverlap) (\<lambda>result.
     bind_err (detrend_fn result) (\<lambda>result.
     bind_err (apply_window win result) (\<lambda>result.
       if sides = ''twosided'' then sp_fft_fft result nfft
       else sp_fft_rfft (map (map Re) result) nfft)))"

subsection \<open>The spectral engine: \<^verbatim>\<open>_spectral_helper\<close>\<close>

text \<open>Lines 272--279: the result for an input of size zero.\<close>

definition input_empty :: "signal \<Rightarrow> yarg \<Rightarrow> bool" where
  "input_empty x y =
     (case y of
        SameObject \<Rightarrow> samples x = []
      | Other ysig \<Rightarrow> samples x = [] \<or> samples ysig = [])"

definition empty_out :: "real list \<times> real list \<times> spectrum" where
  "empty_out = ([], [], RealArr \<lparr>shape = [0], elems = []\<rparr>)"

text \<open>Lines 288--297: the shorter of two inputs is padded with zeros at its end.\<close>

definition equalise_lengths :: "complex list \<Rightarrow> yarg \<Rightarrow> complex list \<times> complex list option" where
  "equalise_lengths x y =
     (case y of
        SameObject \<Rightarrow> (x, None)
      | Other ysig \<Rightarrow>
          let y = samples ysig in
          if length x \<noteq> length y then
            if length x < length y then (x @ replicate (length y - length x) 0, Some y)
            else (x, Some (y @ replicate (length x - length y) 0))
          else (x, Some y))"

text \<open>Lines 299--302.\<close>

definition check_nperseg :: "int option \<Rightarrow> error + int option" where
  "check_nperseg nperseg =
     (case nperseg of
        None \<Rightarrow> Inr None
      | Some n \<Rightarrow>
          if n < 1 then Inl (ValueError ''nperseg must be a positive integer'')
          else Inr (Some n))"

text \<open>Lines 307--312.\<close>

definition resolve_nfft :: "int option \<Rightarrow> int \<Rightarrow> error + int" where
  "resolve_nfft nfft nperseg =
     (case nfft of
        None \<Rightarrow> Inr nperseg
      | Some n \<Rightarrow>
          if n < nperseg
          then Inl (ValueError ''nfft must be greater than or equal to nperseg.'')
          else Inr n)"

text \<open>Lines 314--319.\<close>

definition resolve_noverlap :: "int option \<Rightarrow> int \<Rightarrow> error + int" where
  "resolve_noverlap noverlap nperseg =
     (let noverlap = (case noverlap of None \<Rightarrow> nperseg div 2 | Some n \<Rightarrow> n)
      in if noverlap \<ge> nperseg then Inl (ValueError ''noverlap must be less than nperseg.'')
         else Inr noverlap)"

text \<open>Lines 328--332.\<close>

definition extend_boundary ::
  "string option \<Rightarrow> complex list \<Rightarrow> complex list option \<Rightarrow> int \<Rightarrow>
   error + (complex list \<times> complex list option)" where
  "extend_boundary boundary x yo nperseg =
     (case boundary_funcs boundary of
        Some (Some ext_func) \<Rightarrow>
          bind_err (ext_func x (nperseg div 2)) (\<lambda>x.
            case yo of
              None \<Rightarrow> Inr (x, None)
            | Some y \<Rightarrow> bind_err (ext_func y (nperseg div 2)) (\<lambda>y. Inr (x, Some y)))
      | _ \<Rightarrow> Inr (x, yo))"

text \<open>Lines 334--342; \<^verbatim>\<open>%\<close> by zero raises.\<close>

definition pad_segments ::
  "bool \<Rightarrow> complex list \<Rightarrow> complex list option \<Rightarrow> int \<Rightarrow> int \<Rightarrow>
   error + (complex list \<times> complex list option)" where
  "pad_segments padded x yo nperseg nstep =
     (if padded then
        if nstep = 0 \<or> nperseg = 0 then Inl ZeroDivisionError
        else
          let nadd = ((- (int (length x) - nperseg)) mod nstep) mod nperseg;
              zeros = replicate (nat nadd) 0
          in Inr (x @ zeros, map_option (\<lambda>y. y @ zeros) yo)
      else Inr (x, yo))"

text \<open>
  Lines 364--369: the denominator of \<^verbatim>\<open>scale\<close>. A zero denominator makes \<^verbatim>\<open>scale\<close>
  infinite without raising; the model reports it where the scale is applied.
\<close>

definition scale_den :: "string \<Rightarrow> real \<Rightarrow> real list \<Rightarrow> error + real" where
  "scale_den scaling fs win =
     (if scaling = ''density'' then Inr (fs * sum_list (map (\<lambda>w. w * w) win))
      else if scaling = ''spectrum'' then Inr ((sum_list win)\<^sup>2)
      else Inl (ValueError ''Unknown scaling''))"

text \<open>Lines 374--387; both warnings need the module \<^verbatim>\<open>warnings\<close>, which is not imported.\<close>

definition choose_sides :: "bool \<Rightarrow> signal \<Rightarrow> yarg \<Rightarrow> error + string" where
  "choose_sides return_onesided x y =
     (if return_onesided then
        if iscomplexobj x then Inl (NameError ''warnings'')
        else (case y of
                SameObject \<Rightarrow> Inr ''onesided''
              | Other ysig \<Rightarrow>
                  if iscomplexobj ysig then Inl (NameError ''warnings'')
                  else Inr ''onesided'')
      else Inr ''twosided'')"

text \<open>Lines 389--392; \<^verbatim>\<open>1/fs\<close> is a division of Python floats.\<close>

definition make_freqs :: "string \<Rightarrow> int \<Rightarrow> real \<Rightarrow> error + real list" where
  "make_freqs sides nfft fs =
     (if fs = 0 then Inl ZeroDivisionError
      else if sides = ''twosided'' then sp_fft_fftfreq nfft (1 / fs)
      else sp_fft_rfftfreq nfft (1 / fs))"

text \<open>Lines 395--403.\<close>

definition periodogram ::
  "complex list \<Rightarrow> complex list option \<Rightarrow> real list \<Rightarrow>
   (complex list list \<Rightarrow> error + complex list list) \<Rightarrow>
   int \<Rightarrow> int \<Rightarrow> int \<Rightarrow> string \<Rightarrow> string \<Rightarrow> error + complex list list" where
  "periodogram x yo win detrend_fn nperseg noverlap nfft sides mode =
     bind_err (fft_helper x win detrend_fn nperseg noverlap nfft sides) (\<lambda>result.
       case yo of
         Some y \<Rightarrow>
           bind_err (fft_helper y win detrend_fn nperseg noverlap nfft sides) (\<lambda>result_y.
             Inr (map2 (map2 (\<lambda>a b. cnj a * b)) result result_y))
       | None \<Rightarrow>
           if mode = ''psd'' then Inr (map (map (\<lambda>a. cnj a * a)) result)
           else Inr result)"

text \<open>Lines 371--372 and 405.\<close>

definition apply_scale :: "string \<Rightarrow> real \<Rightarrow> complex list list \<Rightarrow> error + complex list list" where
  "apply_scale mode den result =
     (if den = 0 \<or> (mode = ''stft'' \<and> den < 0) then Inl NonFiniteFloat
      else
        let scale = (if mode = ''stft'' then sqrt (1 / den) else 1 / den)
        in Inr (map (map (\<lambda>v. v * complex_of_real scale)) result))"

text \<open>
  Lines 406--411. \<open>double_slice lo hi\<close> is \<^verbatim>\<open>row[lo:hi] *= 2\<close>; the slice \<^verbatim>\<open>[1:]\<close> ends
  at the length of the row and \<^verbatim>\<open>[1:-1]\<close> one before it.
  \<^verbatim>\<open>
    if sides == 'onesided' and mode == 'psd':
        if nfft % 2:
            result[..., 1:] *= 2
        else:
            # Last point is unpaired Nyquist freq point, don't double
            result[..., 1:-1] *= 2
  \<close>
\<close>

definition double_slice :: "nat \<Rightarrow> nat \<Rightarrow> complex list \<Rightarrow> complex list" where
  "double_slice lo hi row =
     map (\<lambda>i. if lo \<le> i \<and> i < hi then row ! i * 2 else row ! i) [0..<length row]"

definition nyquist_fix :: "string \<Rightarrow> string \<Rightarrow> int \<Rightarrow> complex list list \<Rightarrow> complex list list" where
  "nyquist_fix sides mode nfft result =
     (if sides = ''onesided'' \<and> mode = ''psd'' then
        if nfft mod 2 \<noteq> 0 then map (\<lambda>row. double_slice 1 (length row) row) result
        else map (\<lambda>row. double_slice 1 (length row - 1) row) result
      else result)"

text \<open>Lines 413--416.\<close>

definition arange :: "real \<Rightarrow> real \<Rightarrow> real \<Rightarrow> real list" where
  "arange start stop step =
     map (\<lambda>k. start + real k * step) [0..<nat \<lceil>(stop - start) / step\<rceil>]"

definition segment_times :: "int \<Rightarrow> int \<Rightarrow> nat \<Rightarrow> real \<Rightarrow> string option \<Rightarrow> real list" where
  "segment_times nperseg noverlap N fs boundary =
     (let time = map (\<lambda>t. t / fs)
                   (arange (real_of_int nperseg / 2) (real N - real_of_int nperseg / 2 + 1)
                      (real_of_int (nperseg - noverlap)))
      in if boundary \<noteq> None then map (\<lambda>t. t - (real_of_int nperseg / 2) / fs) time
         else time)"

text \<open>
  Lines 418--430: the cast to the output type changes precision only; the result of an
  auto-spectrum is made real; the frequency axis is rolled in front of the segment axis.
\<close>

definition finish :: "bool \<Rightarrow> string \<Rightarrow> string \<Rightarrow> int \<Rightarrow> complex list list \<Rightarrow> spectrum" where
  "finish same_data mode sides nfft result =
     (let nfreq = (if sides = ''twosided'' then nat nfft else nat (nfft div 2 + 1));
          shp = [nfreq, length result]
      in if same_data \<and> mode \<noteq> ''stft''
         then RealArr \<lparr>shape = shp, elems = concat (transpose (map (map Re) result))\<rparr>
         else CplxArr \<lparr>shape = shp, elems = concat (transpose result)\<rparr>)"

definition spectral_helper ::
  "signal \<Rightarrow> yarg \<Rightarrow> real \<Rightarrow> window_arg \<Rightarrow> int option \<Rightarrow> int option \<Rightarrow> int option \<Rightarrow>
   detrend_arg \<Rightarrow> bool \<Rightarrow> string \<Rightarrow> string \<Rightarrow> string option \<Rightarrow> bool \<Rightarrow>
   error + (real list \<times> real list \<times> spectrum)" where
  "spectral_helper x y fs window nperseg noverlap nfft detrend return_onesided scaling
     mode boundary padded =
     (if mode \<notin> set [''psd'', ''stft''] then Inl (ValueError ''Unknown value for mode'')
      else if boundary_funcs boundary = None then Inl (ValueError ''Unknown boundary option'')
      else
        let same_data = (y = SameObject) in
        if \<not> same_data \<and> mode \<noteq> ''psd''
        then Inl (ValueError ''x and y must be equal if mode is stft'')
        else if input_empty x y then Inr empty_out
        else
          let (xs, yo) = equalise_lengths (samples x) y in
          bind_err (check_nperseg nperseg) (\<lambda>nperseg.
          bind_err (triage_segments window nperseg (int (length xs))) (\<lambda>(win, nperseg).
          bind_err (resolve_nfft nfft nperseg) (\<lambda>nfft.
          bind_err (resolve_noverlap noverlap nperseg) (\<lambda>noverlap.
          let nstep = nperseg - noverlap in
          bind_err (extend_boundary boundary xs yo nperseg) (\<lambda>(xs, yo).
          bind_err (pad_segments padded xs yo nperseg nstep) (\<lambda>(xs, yo).
          bind_err (scale_den scaling fs win) (\<lambda>den.
          bind_err (choose_sides return_onesided x y) (\<lambda>sides.
          bind_err (make_freqs sides nfft fs) (\<lambda>freqs.
          bind_err (periodogram xs yo win (detrend_func detrend) nperseg noverlap nfft
                      sides mode) (\<lambda>result.
          bind_err (apply_scale mode den result) (\<lambda>result.
          let result = nyquist_fix sides mode nfft result;
              time = segment_times nperseg noverlap (length xs) fs boundary
          in Inr (freqs, time, finish same_data mode sides nfft result)))))))))))))"

subsection \<open>Public functions\<close>

text \<open>
  \<^verbatim>\<open>csd\<close> runs the engine in mode \<^verbatim>\<open>psd\<close> with no boundary extension and no padding,
  drops the segment times and averages over the segment axis.
\<close>

definition csd ::
  "signal \<Rightarrow> yarg \<Rightarrow> real \<Rightarrow> window_arg \<Rightarrow> int option \<Rightarrow> int option \<Rightarrow> int option \<Rightarrow>
   detrend_arg \<Rightarrow> bool \<Rightarrow> string \<Rightarrow> string \<Rightarrow> error + (real list \<times> spectrum)" where
  "csd x y fs window nperseg noverlap nfft detrend return_onesided scaling average =
     bind_err (spectral_helper x y fs window nperseg noverlap nfft detrend return_onesided
                 scaling ''psd'' None False) (\<lambda>(freqs, time, Pxy).
     bind_err (csd_average average Pxy) (\<lambda>Pxy. Inr (freqs, Pxy)))"

text \<open>\<^verbatim>\<open>welch\<close> is \<^verbatim>\<open>csd(x, x, ...)\<close> followed by \<^verbatim>\<open>Pxx.real\<close>.\<close>

definition welch ::
  "signal \<Rightarrow> real \<Rightarrow> window_arg \<Rightarrow> int option \<Rightarrow> int option \<Rightarrow> int option \<Rightarrow>
   detrend_arg \<Rightarrow> bool \<Rightarrow> string \<Rightarrow> string \<Rightarrow> error + (real list \<times> spectrum)" where
  "welch x fs window nperseg noverlap nfft detrend return_onesided scaling average =
     bind_err (csd x SameObject fs window nperseg noverlap nfft detrend return_onesided
                 scaling average) (\<lambda>(freqs, Pxx). Inr (freqs, real_part Pxx))"

section \<open>Properties\<close>

subsection \<open>Sequencing of fallible steps\<close>

lemma bind_err_Inr: "bind_err (Inr v) f = f v"
  by (simp add: bind_err_def)

lemma bind_err_Inl: "bind_err (Inl e) f = Inl e"
  by (simp add: bind_err_def)

lemma bind_err_Inr_iff: "bind_err r f = Inr v \<longleftrightarrow> (\<exists>u. r = Inr u \<and> f u = Inr v)"
  by (cases r) (simp_all add: bind_err_def)

subsection \<open>Segment count\<close>

lemma nseg_step_le:
  fixes N noverlap step :: int
  assumes "0 < step"
  shows "((N - noverlap) div step) * step \<le> N - noverlap"
proof -
  have "(N - noverlap) div step * step + (N - noverlap) mod step = N - noverlap"
    by simp
  moreover have "0 \<le> (N - noverlap) mod step"
    using assms by simp
  ultimately show ?thesis by linarith
qed

lemma view_in_bounds_valid:
  fixes N nperseg noverlap :: int
  assumes "noverlap < nperseg" "noverlap \<le> N" "0 \<le> noverlap"
  shows "view_in_bounds N ((N - noverlap) div (nperseg - noverlap)) nperseg (nperseg - noverlap)"
proof -
  let ?step = "nperseg - noverlap"
  let ?nseg = "(N - noverlap) div ?step"
  have step: "0 < ?step" using assms by simp
  have nonneg: "0 \<le> ?nseg" using assms step by (simp add: pos_imp_zdiv_nonneg_iff)
  show ?thesis
  proof (cases "?nseg = 0")
    case True
    then show ?thesis by (simp add: view_in_bounds_def)
  next
    case False
    with nonneg have pos: "1 \<le> ?nseg" by linarith
    have a: "0 \<le> (?nseg - 1) * ?step" using pos step by simp
    have "?nseg * ?step \<le> N - noverlap" using nseg_step_le [OF step] .
    then have "(?nseg - 1) * ?step + nperseg \<le> N" by (simp add: algebra_simps)
    with a show ?thesis by (simp add: view_in_bounds_def min_def max_def)
  qed
qed

lemma take_one_drop: "k < length x \<Longrightarrow> take (Suc 0) (drop k x) = [x ! k]"
  by (simp add: take_Suc_conv_app_nth)

lemma newaxis_rows: "map (\<lambda>v. [v]) x = segment_rows x (int (length x)) 1 1"
  by (rule nth_equalityI) (simp_all add: segment_rows_def take_one_drop)

lemma segment_view_valid:
  assumes "0 \<le> noverlap" "noverlap < nperseg" "noverlap \<le> int (length x)"
  shows "segment_view x nperseg noverlap =
           Inr (segment_rows x ((int (length x) - noverlap) div (nperseg - noverlap))
                  nperseg (nperseg - noverlap))"
proof (cases "nperseg = 1 \<and> noverlap = 0")
  case True
  then show ?thesis by (simp add: segment_view_def newaxis_rows)
next
  case False
  have step: "0 < nperseg - noverlap" using assms by simp
  have "0 \<le> (int (length x) - noverlap) div (nperseg - noverlap)"
    using assms step by (simp add: pos_imp_zdiv_nonneg_iff)
  moreover have "0 \<le> nperseg" using assms by simp
  moreover note view_in_bounds_valid [OF assms(2) assms(3) assms(1)]
  ultimately show ?thesis using False step by (auto simp add: segment_view_def Let_def)
qed

lemma segment_rows_length: "0 \<le> nseg \<Longrightarrow> int (length (segment_rows x nseg nperseg step)) = nseg"
  by (simp add: segment_rows_def)

lemma segment_rows_nth:
  "k < nat nseg \<Longrightarrow>
     segment_rows x nseg nperseg step ! k = take (nat nperseg) (drop (k * nat step) x)"
  by (simp add: segment_rows_def)

lemma row_end_le:
  fixes N noverlap step nseg :: int
  assumes "0 < step" "nseg * step \<le> N - noverlap" "int k < nseg"
  shows "int k * step + (step + noverlap) \<le> N"
proof -
  have "int k + 1 \<le> nseg" using assms(3) by simp
  then have "(int k + 1) * step \<le> nseg * step"
    using assms(1) by (simp only: mult_le_cancel_right) simp
  with assms(2) show ?thesis by (simp add: algebra_simps)
qed

lemma nat_bound:
  fixes step p :: int
  assumes "0 < step" "0 \<le> p" "int k * step + p \<le> int L"
  shows "nat p \<le> L - k * nat step"
proof -
  have "int (nat step) = step" using assms(1) by simp
  then have "int (k * nat step) = int k * step" by (simp only: of_nat_mult)
  moreover have "int (nat p) = p" using assms(2) by simp
  ultimately have "int (k * nat step + nat p) = int k * step + p" by (simp only: of_nat_add)
  then have "int (k * nat step + nat p) \<le> int L" using assms(3) by simp
  then have "k * nat step + nat p \<le> L" by (simp only: of_nat_le_iff)
  then show ?thesis by linarith
qed

lemma segment_rows_take:
  assumes "0 < step" "0 \<le> noverlap" "0 \<le> nseg"
    and "nseg * step \<le> int (length x) - noverlap"
    and "int L = noverlap + nseg * step"
  shows "segment_rows (take L x) nseg (step + noverlap) step
           = segment_rows x nseg (step + noverlap) step"
proof -
  have "take (nat (step + noverlap)) (drop (k * nat step) (take L x))
          = take (nat (step + noverlap)) (drop (k * nat step) x)" if "k < nat nseg" for k
  proof -
    have "int k < nseg" using that by simp
    from row_end_le [OF assms(1) _ this, of "noverlap + nseg * step" noverlap]
    have "int k * step + (step + noverlap) \<le> int L" using assms(5) by simp
    then have "nat (step + noverlap) \<le> L - k * nat step"
      using assms(1,2) by (intro nat_bound) simp_all
    then show ?thesis by (simp add: drop_take min_def)
  qed
  then show ?thesis by (simp add: segment_rows_def)
qed

text \<open>
  The engine hands the segmenter a signal that is at least \<open>nperseg\<close> samples long.
\<close>

lemma triage_segments_le:
  assumes "triage_segments window nperseg N = Inr (win, np)"
  shows "np \<le> N"
  using assms
  by (cases window)
     (auto simp add: triage_segments_def bind_err_Inr_iff Let_def split: if_splits option.splits)

lemma resolve_noverlap_less:
  "resolve_noverlap noverlap np = Inr nov \<Longrightarrow> nov < np"
  by (auto simp add: resolve_noverlap_def Let_def split: if_splits)

lemma ext_func_length:
  assumes "boundary_funcs boundary = Some (Some ext_func)" "ext_func x n = Inr x'"
  shows "length x \<le> length x'"
  using assms
  by (auto simp add: boundary_funcs_def even_ext_def odd_ext_def const_ext_def zero_ext_def Let_def
      split: if_splits)

lemma extend_boundary_length:
  assumes "extend_boundary boundary xs yo np = Inr (xs', yo')"
  shows "length xs \<le> length xs'"
proof (cases "boundary_funcs boundary")
  case None
  with assms show ?thesis by (simp add: extend_boundary_def)
next
  case (Some f)
  show ?thesis
  proof (cases f)
    case None
    with Some assms show ?thesis by (simp add: extend_boundary_def)
  next
    case (Some ext_func)
    with \<open>boundary_funcs boundary = Some f\<close> assms
    obtain x1 where "ext_func xs (np div 2) = Inr x1" "xs' = x1"
      by (auto simp add: extend_boundary_def bind_err_Inr_iff split: option.splits)
    with ext_func_length [of boundary ext_func xs "np div 2" x1] Some
      \<open>boundary_funcs boundary = Some f\<close>
    show ?thesis by simp
  qed
qed

lemma pad_segments_length:
  assumes "pad_segments padded xs yo np nstep = Inr (xs', yo')"
  shows "length xs \<le> length xs'"
  using assms by (auto simp add: pad_segments_def Let_def split: if_splits)

lemma engine_segmenter_precondition:
  assumes "triage_segments window nperseg (int (length xs)) = Inr (win, np)"
    and "resolve_noverlap noverlap np = Inr nov"
    and "extend_boundary boundary xs yo np = Inr (xs1, yo1)"
    and "pad_segments padded xs1 yo1 np nstep = Inr (xs2, yo2)"
  shows "nov < np \<and> np \<le> int (length xs2)"
  using triage_segments_le [OF assms(1)] resolve_noverlap_less [OF assms(2)]
    extend_boundary_length [OF assms(3)] pad_segments_length [OF assms(4)]
  by simp

text \<open>
  C1. For a signal of length \<open>N\<close> along the transform axis and \<open>0 \<le> noverlap < nperseg\<close>
  (with \<open>noverlap \<le> N\<close>, without which the quotient is negative; the engine guarantees
  it, since it never lets \<open>nperseg\<close> exceed the signal length), the segmenter raises
  nothing and produces exactly \<open>floor ((N - noverlap) / (nperseg - noverlap))\<close> segments,
  each of length \<open>nperseg\<close>; segment \<open>k\<close> is the slice starting at
  \<open>k * (nperseg - noverlap)\<close>, and the tail samples beyond the last full segment do not
  influence the result.
\<close>

theorem C1_segment_count:
  fixes x :: "'a list"
  assumes "0 \<le> noverlap" "noverlap < nperseg" "noverlap \<le> int (length x)"
  defines "nseg \<equiv> (int (length x) - noverlap) div (nperseg - noverlap)"
  shows "\<exists>segs. segment_view x nperseg noverlap = Inr segs
           \<and> int (length segs) = nseg
           \<and> (\<forall>s \<in> set segs. int (length s) = nperseg)
           \<and> (\<forall>k < length segs.
                 segs ! k = take (nat nperseg) (drop (k * nat (nperseg - noverlap)) x))
           \<and> segment_view (take (nat (noverlap + nseg * (nperseg - noverlap))) x)
                 nperseg noverlap = Inr segs"
proof -
  let ?step = "nperseg - noverlap"
  let ?segs = "segment_rows x nseg nperseg ?step"
  let ?L = "nat (noverlap + nseg * ?step)"
  have step: "0 < ?step" using assms by simp
  have nonneg: "0 \<le> nseg"
    unfolding nseg_def using assms step by (simp add: pos_imp_zdiv_nonneg_iff)
  have le: "nseg * ?step \<le> int (length x) - noverlap"
    unfolding nseg_def using nseg_step_le [OF step] .
  have 1: "segment_view x nperseg noverlap = Inr ?segs"
    unfolding nseg_def using segment_view_valid [OF assms(1-3)] .
  have 2: "int (length ?segs) = nseg"
    using nonneg by (rule segment_rows_length)
  have 4: "\<forall>k < length ?segs. ?segs ! k = take (nat nperseg) (drop (k * nat ?step) x)"
    by (simp add: segment_rows_def)
  have 3: "\<forall>s \<in> set ?segs. int (length s) = nperseg"
  proof
    fix s assume "s \<in> set ?segs"
    then obtain k where k: "k < nat nseg" and s: "s = take (nat nperseg) (drop (k * nat ?step) x)"
      by (auto simp: segment_rows_def)
    from k have "int k < nseg" by simp
    from row_end_le [OF step le this]
    have "int k * ?step + nperseg \<le> int (length x)" by simp
    then have "nat nperseg \<le> length x - k * nat ?step"
      using step assms(1,2) by (intro nat_bound) simp_all
    then show "int (length s) = nperseg" using s assms by (simp add: min_def)
  qed
  have Llen: "int ?L = noverlap + nseg * ?step"
    using assms(1) nonneg step by simp
  have Lle: "?L \<le> length x" using le Llen by linarith
  have len_take: "int (length (take ?L x)) = noverlap + nseg * ?step"
    using Lle Llen by (simp add: min_def)
  have nseg': "(int (length (take ?L x)) - noverlap) div ?step = nseg"
    using step by (simp only: len_take) simp
  have "noverlap \<le> int (length (take ?L x))"
    using nonneg step by (simp only: len_take) simp
  from segment_view_valid [OF assms(1) assms(2) this]
  have "segment_view (take ?L x) nperseg noverlap = Inr (segment_rows (take ?L x) nseg nperseg ?step)"
    by (simp only: nseg')
  moreover have "segment_rows (take ?L x) nseg nperseg ?step = ?segs"
    using segment_rows_take [OF step assms(1) nonneg le Llen] by simp
  ultimately have 5: "segment_view (take ?L x) nperseg noverlap = Inr ?segs" by simp
  from 1 2 3 4 5 show ?thesis by blast
qed

theorem C1_segment_count_witness:
  "(0::int) \<le> 2 \<and> (2::int) < 4 \<and> 2 \<le> int (length [1, 2, 3, 4, 5, 6, 7 :: int])
   \<and> (\<exists>segs. segment_view [1, 2, 3, 4, 5, 6, 7 :: int] 4 2 = Inr segs
         \<and> int (length segs) = 2
         \<and> (\<forall>s \<in> set segs. int (length s) = 4))"
  using C1_segment_count [of 2 4 "[1, 2, 3, 4, 5, 6, 7 :: int]"] by simp blast

subsection \<open>One-sided doubling\<close>

lemma nth_double_slice:
  "i < length row \<Longrightarrow>
   double_slice lo hi row ! i = (if lo \<le> i \<and> i < hi then row ! i * 2 else row ! i)"
  by (simp add: double_slice_def)

lemma length_double_slice: "length (double_slice lo hi row) = length row"
  by (simp add: double_slice_def)

text \<open>
  C2. In a one-sided computation in mode \<^verbatim>\<open>psd\<close> the step that follows the scaling
  keeps the number of segments and of bins, and in every segment multiplies by two every
  frequency bin except bin 0 when \<open>nfft\<close> is odd, and every bin except bin 0 and the last
  (Nyquist) bin when \<open>nfft\<close> is even; the excepted bins are left as they are.
\<close>

theorem C2_onesided_doubling:
  "length (nyquist_fix ''onesided'' ''psd'' nfft result) = length result
   \<and> (\<forall>s < length result.
         length (nyquist_fix ''onesided'' ''psd'' nfft result ! s) = length (result ! s)
         \<and> (\<forall>i < length (result ! s).
               nyquist_fix ''onesided'' ''psd'' nfft result ! s ! i =
                 (if i = 0 \<or> (even nfft \<and> i = length (result ! s) - 1)
                  then result ! s ! i else 2 * (result ! s ! i))))"
  by (auto simp add: nyquist_fix_def nth_double_slice length_double_slice)

theorem C2_onesided_doubling_witness:
  "nyquist_fix ''onesided'' ''psd'' 4 [[1, 3, 5]] = [[1, 6, 5]]
   \<and> nyquist_fix ''onesided'' ''psd'' 5 [[1, 3, 5]] = [[1, 6, 10]]"
  using C2_onesided_doubling [of 4 "[[1, 3, 5]]"] C2_onesided_doubling [of 5 "[[1, 3, 5]]"]
  by (simp add: nyquist_fix_def double_slice_def upt_rec)

subsection \<open>A single segment\<close>

text \<open>
  C8. For a periodogram stack with exactly one segment (an array of at least two
  dimensions, of non-zero size, whose last axis has length one, as the engine produces it)
  mean and median averaging both return the stack with its last axis dropped
  (\<open>reshape\<close> replaces the shape and leaves the elements alone: nothing is divided by the
  bias factor), so the two methods agree.
\<close>

theorem C8_single_segment:
  assumes "length (spectrum_shape P) \<ge> 2" "prod_list (spectrum_shape P) > 0"
    and "last (spectrum_shape P) = 1"
  shows "csd_average ''mean'' P = Inr (reshape P (butlast (spectrum_shape P)))
       \<and> csd_average ''median'' P = Inr (reshape P (butlast (spectrum_shape P)))
       \<and> csd_average ''median'' P = csd_average ''mean'' P"
  using assms by (simp add: csd_average_def)

theorem C8_single_segment_witness:
  "csd_average ''mean'' (RealArr \<lparr>shape = [3, 1], elems = [4, 5, 6]\<rparr>)
     = Inr (RealArr \<lparr>shape = [3], elems = [4, 5, 6]\<rparr>)
   \<and> csd_average ''median'' (RealArr \<lparr>shape = [3, 1], elems = [4, 5, 6]\<rparr>)
     = Inr (RealArr \<lparr>shape = [3], elems = [4, 5, 6]\<rparr>)"
  using C8_single_segment [of "RealArr \<lparr>shape = [3, 1], elems = [4, 5, 6]\<rparr>"]
  by (simp add: reshape_def)

subsection \<open>Boundary extension\<close>

text \<open>
  C9, as the claim states it, fails: with a signal of one sample and \<open>n = 1\<close>, which
  exceeds \<open>shape[axis] - 1 = 0\<close>, the modes \<^verbatim>\<open>constant\<close> and \<^verbatim>\<open>zeros\<close> return an extended
  signal instead of failing.
\<close>

theorem C9_counterexample:
  "(1::int) > int (length [5::real]) - 1 \<and> const_ext [5::real] 1 = Inr [5, 5, 5]
   \<and> zero_ext [5::real] 1 = Inr [0, 5, 0]"
  by (simp add: const_ext_def zero_ext_def)

text \<open>
  C9, amended. All four extension modes return the signal unchanged when \<open>n < 1\<close>. For
  \<open>n \<ge> 1\<close>, the modes \<^verbatim>\<open>even\<close> and \<^verbatim>\<open>odd\<close> fail with \<^verbatim>\<open>ValueError\<close> whenever \<open>n\<close>
  exceeds \<open>shape[axis] - 1\<close>; the modes \<^verbatim>\<open>constant\<close> and \<^verbatim>\<open>zeros\<close> have no such limit:
  for \<open>n \<ge> 1\<close>, \<^verbatim>\<open>zeros\<close> returns the signal with \<open>n\<close> zeros put at each end, and
  \<^verbatim>\<open>constant\<close>, on a non-empty signal, returns the signal with \<open>n\<close> copies of its first
  sample put in front and \<open>n\<close> copies of its last sample put behind.
\<close>

theorem C9_boundary_extension:
  fixes x :: "'a::field_char_0 list"
  shows "(n < 1 \<longrightarrow> even_ext x n = Inr x \<and> odd_ext x n = Inr x
                   \<and> const_ext x n = Inr x \<and> zero_ext x n = Inr x)
       \<and> (1 \<le> n \<and> n > int (length x) - 1 \<longrightarrow>
             even_ext x n = Inl too_big \<and> odd_ext x n = Inl too_big \<and> is_ValueError too_big)
       \<and> (1 \<le> n \<longrightarrow>
             zero_ext x n = Inr (replicate (nat n) 0 @ x @ replicate (nat n) 0))
       \<and> (1 \<le> n \<and> x \<noteq> [] \<longrightarrow>
             const_ext x n = Inr (replicate (nat n) (hd x) @ x @ replicate (nat n) (last x)))"
  by (simp add: even_ext_def odd_ext_def const_ext_def zero_ext_def too_big_def Let_def)

theorem C9_boundary_extension_witness:
  "even_ext [1, 2, 3 :: real] 0 = Inr [1, 2, 3] \<and> odd_ext [1, 2, 3 :: real] 0 = Inr [1, 2, 3]
   \<and> const_ext [1, 2, 3 :: real] 0 = Inr [1, 2, 3] \<and> zero_ext [1, 2, 3 :: real] 0 = Inr [1, 2, 3]
   \<and> even_ext [1, 2, 3 :: real] 3 = Inl too_big \<and> odd_ext [1, 2, 3 :: real] 3 = Inl too_big
   \<and> zero_ext [1, 2, 3 :: real] 3 = Inr [0, 0, 0, 1, 2, 3, 0, 0, 0]
   \<and> const_ext [1, 2, 3 :: real] 3 = Inr [1, 1, 1, 1, 2, 3, 3, 3, 3]"
  using C9_boundary_extension [of 0 "[1, 2, 3 :: real]"]
        C9_boundary_extension [of 3 "[1, 2, 3 :: real]"]
  by (simp add: eval_nat_numeral)

subsection \<open>Numeric window arguments\<close>

lemma fold_add_length:
  "length fac = length w0 \<Longrightarrow>
   length (fold (\<lambda>k w. map2 (+) w (map (\<lambda>t. g k t) fac)) ks w0) = length w0"
  by (induction ks arbitrary: w0) simp_all

lemma linspace_length: "length (linspace a b n) = n"
  by (simp add: linspace_def)

lemma hann_length:
  assumes "0 \<le> Nx"
  shows "\<exists>w. hann Nx symm = Inr w \<and> int (length w) = Nx"
proof (cases "Nx \<le> 1")
  case True
  with assms show ?thesis
    by (simp add: hann_def general_hamming_def general_cosine_def len_guards_def bind_err_def)
next
  case False
  then show ?thesis
    by (cases symm)
       (simp_all add: hann_def general_hamming_def general_cosine_def len_guards_def bind_err_def
          extend_w_def truncate_w_def Let_def fold_add_length linspace_length)
qed

text \<open>
  C10. When the window argument is a number, \<^verbatim>\<open>get_window\<close> ignores its value: any two
  numbers give the same result, which is the Hann window \<^verbatim>\<open>hann(Nx, not fftbins)\<close>, a
  sequence of \<open>Nx\<close> coefficients for every length \<open>Nx \<ge> 0\<close>.
\<close>

theorem C10_numeric_window_ignored:
  "get_window (WinNum b1) Nx fftbins = get_window (WinNum b2) Nx fftbins
   \<and> get_window (WinNum b1) Nx fftbins = hann Nx (\<not> fftbins)
   \<and> (0 \<le> Nx \<longrightarrow> (\<exists>w. get_window (WinNum b1) Nx fftbins = Inr w \<and> int (length w) = Nx))"
  using hann_length [of Nx "\<not> fftbins"] by (simp add: get_window_def)

theorem C10_numeric_window_ignored_witness:
  "(0::int) \<le> 4 \<and> get_window (WinNum 3) 4 True = get_window (WinNum 14) 4 True
   \<and> (\<exists>w. get_window (WinNum 3) 4 True = Inr w \<and> int (length w) = 4)"
proof -
  have "(0::int) \<le> 4" by simp
  with C10_numeric_window_ignored [of 3 4 True 14] show ?thesis by blast
qed

subsection \<open>Median averaging\<close>

lemma median_bias_sum:
  "median_bias n = 1 + (\<Sum>k = 1..nat ((n - 1) div 2). 1 / (2 * real k + 1) - 1 / (2 * real k))"
proof -
  have "nat ((n - 1) div 2 + 1) = Suc (nat ((n - 1) div 2)) \<or> (n - 1) div 2 < 0"
    by linarith
  then have "{1..<nat ((n - 1) div 2 + 1)} = {1..nat ((n - 1) div 2)}"
    by (auto simp: atLeastLessThanSuc_atLeastAtMost)
  then show ?thesis
    by (simp add: median_bias_def interv_sum_list_conv_sum_set_nat comp_def)
qed

lemma bias_reindex:
  fixes n :: int
  shows "(\<Sum>k = 1..nat ((n - 1) div 2). 1 / (2 * real k + 1) - 1 / (2 * real k))
       = (\<Sum>i\<in>{i. odd i \<and> int i \<le> n - 2}. 1 / (real i + 2) - 1 / (real i + 1))"
proof (rule sum.reindex_bij_witness [where i = "\<lambda>i. (i + 1) div 2" and j = "\<lambda>k. 2 * k - 1"])
  fix k assume k: "k \<in> {1..nat ((n - 1) div 2)}"
  then have k1: "1 \<le> k" and k2: "int k \<le> (n - 1) div 2" by auto
  show "(2 * k - 1 + 1) div 2 = k" using k1 by simp
  have "2 * int k \<le> n - 1" using k2 by linarith
  then show "2 * k - 1 \<in> {i. odd i \<and> int i \<le> n - 2}" using k1 by (auto simp: of_nat_diff)
  have "real (2 * k - 1) = 2 * real k - 1" using k1 by (simp add: of_nat_diff)
  then show "1 / (real (2 * k - 1) + 2) - 1 / (real (2 * k - 1) + 1)
           = 1 / (2 * real k + 1) - 1 / (2 * real k)" by simp
next
  fix i assume "i \<in> {i. odd i \<and> int i \<le> n - 2}"
  then have odd: "odd i" and le: "int i \<le> n - 2" by auto
  from odd obtain q where q: "i = 2 * q + 1" by (auto elim: oddE)
  show "2 * ((i + 1) div 2) - 1 = i" using q by simp
  have "int q + 1 \<le> (n - 1) div 2" using le q by simp
  then show "(i + 1) div 2 \<in> {1..nat ((n - 1) div 2)}" using q by simp
qed

lemma prod_list_butlast:
  fixes shp :: "nat list"
  shows "shp \<noteq> [] \<Longrightarrow> prod_list shp = prod_list (butlast shp) * last shp"
  by (induction shp) auto

lemma middle_single: "middle [v] = v"
  by (simp add: middle_def)

lemma lanes_single:
  assumes "last (shape a) = 1" "shape a \<noteq> []" "length (elems a) = prod_list (shape a)"
  shows "map f (lanes a) = map (\<lambda>v. f [v]) (elems a)"
proof -
  have "prod_list (butlast (shape a)) = length (elems a)"
    using assms prod_list_butlast [of "shape a"] by simp
  then show ?thesis
    using assms(1) by (intro nth_equalityI) (simp_all add: lanes_def take_one_drop)
qed

text \<open>
  C3, amended. For a well-formed periodogram stack of at least two dimensions and non-zero
  size, with \<open>n \<ge> 1\<close> segments along its last axis, median averaging returns the
  elementwise median over the segments divided by the bias factor
  \<open>1 + (\<Sum> odd i \<le> n - 2. 1 / (i + 2) - 1 / (i + 1))\<close>, which is what \<^verbatim>\<open>_median_bias\<close>
  computes (for \<open>n = 1\<close> the factor is 1 and the median is the single periodogram).
\<close>

theorem C3_median_average:
  assumes "length (spectrum_shape P) \<ge> 2" "prod_list (spectrum_shape P) > 0"
    and "well_formed P"
  defines "n \<equiv> last (spectrum_shape P)"
  shows "1 \<le> n \<and>
         csd_average ''median'' P =
           Inr (divide_by (np_median P)
                  (1 + (\<Sum>i\<in>{i. odd i \<and> i + 2 \<le> n}. 1 / (real i + 2) - 1 / (real i + 1))))"
proof -
  have ne: "spectrum_shape P \<noteq> []" using assms(1) by auto
  have pos: "1 \<le> n"
    using assms(2) prod_list_butlast [OF ne] unfolding n_def by (cases "last (spectrum_shape P)") auto
  have set_eq: "{i. odd i \<and> int i \<le> int n - 2} = {i. odd i \<and> i + 2 \<le> n}" by auto
  have bias: "median_bias (int n) =
      1 + (\<Sum>i\<in>{i. odd i \<and> i + 2 \<le> n}. 1 / (real i + 2) - 1 / (real i + 1))"
    by (simp only: median_bias_sum bias_reindex set_eq)
  show ?thesis
  proof (cases "n > 1")
    case True
    then show ?thesis
      using assms(1,2) pos bias unfolding n_def by (simp add: csd_average_def)
  next
    case False
    with pos have n1: "n = 1" by simp
    then have "{i. odd i \<and> i + 2 \<le> n} = {}" by auto
    then have b1: "(1 + (\<Sum>i\<in>{i. odd i \<and> i + 2 \<le> n}. 1 / (real i + 2) - 1 / (real i + 1))) = 1"
      by (simp only: sum.empty)
    have "divide_by (np_median P) 1 = reshape P (butlast (spectrum_shape P))"
    proof (cases P)
      case (RealArr a)
      then have "map median_real (lanes a) = map (\<lambda>v. median_real [v]) (elems a)"
        using n1 ne assms(3) unfolding n_def by (intro lanes_single) (simp_all add: well_formed_def)
      then show ?thesis using RealArr
        by (simp add: divide_by_def np_median_def reshape_def reduce_last_def median_real_def
            middle_single)
    next
      case (CplxArr a)
      then have "map median_cplx (lanes a) = map (\<lambda>v. median_cplx [v]) (elems a)"
        using n1 ne assms(3) unfolding n_def by (intro lanes_single) (simp_all add: well_formed_def)
      then show ?thesis using CplxArr
        by (simp add: divide_by_def np_median_def reshape_def reduce_last_def median_cplx_def
            middle_single)
    qed
    then show ?thesis
      using assms(1,2) n1 b1 unfolding n_def by (simp add: csd_average_def)
  qed
qed

text \<open>
  C3, as the claim states it, fails: for three segments with values 3, 1, 2 in one
  frequency bin the code returns \<open>2 / (5 / 6) = 12 / 5\<close>, while the median divided by the
  bias factor of the claim, \<open>1 + (1 / 2 - 1 / 1) = 1 / 2\<close>, is 4.
\<close>

theorem C3_counterexample:
  "csd_average ''median'' (RealArr \<lparr>shape = [1, 3], elems = [3, 1, 2]\<rparr>)
     = Inr (RealArr \<lparr>shape = [1], elems = [12 / 5]\<rparr>)
   \<and> median_real [3, 1, 2] / spec_median_bias 3 = 4
   \<and> median_bias 3 = 5 / 6 \<and> spec_median_bias 3 = 1 / 2"
  by (simp add: csd_average_def np_median_def divide_by_def reduce_last_def lanes_def
      median_real_def middle_def median_bias_def spec_median_bias_def upt_rec)

theorem C3_median_average_witness:
  "csd_average ''median'' (RealArr \<lparr>shape = [1, 3], elems = [3, 1, 2]\<rparr>)
     = Inr (RealArr \<lparr>shape = [1], elems = [2 / (1 + (1 / 3 - 1 / 2))]\<rparr>)"
proof -
  have "{i. odd i \<and> i + 2 \<le> (3::nat)} = {1}" 
    by (auto elim!: oddE)
  then show ?thesis
  using C3_median_average [of "RealArr \<lparr>shape = [1, 3], elems = [3, 1, 2]\<rparr>"]
  by (simp add: well_formed_def np_median_def divide_by_def reduce_last_def lanes_def
      median_real_def middle_def)
qed

subsection \<open>Running the engine\<close>

lemma resolve_nfft_cases:
  "(\<exists>m. resolve_nfft nfft np = Inl (ValueError m)) \<or> (\<exists>n. resolve_nfft nfft np = Inr n)"
  by (simp add: resolve_nfft_def split: option.splits)

lemmas engine_defs = spectral_helper_def boundary_funcs_def input_empty_def equalise_lengths_def
  check_nperseg_def triage_segments_def get_window_def win_equiv_def win_equiv_raw_def needs_param_def
  resolve_nfft_def resolve_noverlap_def extend_boundary_def pad_segments_def scale_den_def
  choose_sides_def bind_err_def make_freqs_def sp_fft_rfftfreq_def sp_fft_fftfreq_def
  periodogram_def fft_helper_def segment_view_def view_in_bounds_def segment_rows_def
  detrend_func_def signaltools_detrend_def apply_window_def win_mul_def sp_fft_rfft_def sp_fft_fft_def
  apply_scale_def nyquist_fix_def finish_def

lemma hann4: "hann 4 False = Inr [0, 1/2, 1, 1/2]"
  by (simp add: hann_def general_hamming_def general_cosine_def len_guards_def bind_err_def
      extend_w_def truncate_w_def linspace_def upt_rec eval_nat_numeral)

text \<open>The four-point transform in closed form, and a call evaluated in full.\<close>

lemma cis_quarter: "cis (- 2 * pi * real j * real k / real 4) = (- \<i>) ^ (j * k)"
proof -
  have "(- \<i>) = cis (- (pi / 2))" by (simp add: complex_eq_iff)
  then have "(- \<i>) ^ (j * k) = cis (real (j * k) * (- (pi / 2)))"
    by (simp only: DeMoivre)
  also have "real (j * k) * (- (pi / 2)) = - 2 * pi * real j * real k / real 4" by simp
  finally show ?thesis by simp
qed

lemma dft_four:
  "dft [a, b, c, d] =
     [a + b + c + d, a - \<i> * b - c + \<i> * d, a - b + c - d, a + \<i> * b - c - \<i> * d]"
proof -
  have "dft [a, b, c, d] =
          map (\<lambda>k. sum_list (map (\<lambda>j. [a, b, c, d] ! j * (- \<i>) ^ (j * k)) [0..<4])) [0..<4]"
  proof -
    have len: "length [a, b, c, d] = 4" by simp
    show ?thesis unfolding dft_def Let_def len by (simp only: cis_quarter)
  qed
  also have "\<dots> = [a + b + c + d, a - \<i> * b - c + \<i> * d, a - b + c - d, a + \<i> * b - c - \<i> * d]"
    by (simp add: upt_rec eval_nat_numeral algebra_simps)
  finally show ?thesis .
qed

lemma transpose_single: "transpose [xs] = map (\<lambda>v. [v]) xs"
  by (induction xs) simp_all

lemma csd_single_segment:
  "csd (RealSig [1, 2, 3, 4]) SameObject 1 (WinStr ''hann'') (Some 4) None None
     (DetrendStr ''constant'') True ''density'' average
   = Inr ([0, 1 / 4, 1 / 2], RealArr \<lparr>shape = [3], elems = [2 / 3, 5 / 3, 0]\<rparr>)"
  by (simp add: csd_def engine_defs Let_def upt_rec upto_rec1 hann4 csd_average_def
      reshape_def fit_length_def dft_four mean_def double_slice_def transpose_single)

subsection \<open>The overlap check\<close>

lemma engine_noverlap_rejected:
  assumes "\<not> input_empty x y"
    and "check_nperseg nperseg = Inr np0"
    and "triage_segments window np0 (int (length (fst (equalise_lengths (samples x) y))))
           = Inr (win, np)"
    and "resolve_noverlap noverlap np = Inl e"
  shows "spectral_helper x y fs window nperseg noverlap nfft detrend return_onesided scaling
           mode boundary padded =
         (if mode \<notin> set [''psd'', ''stft''] then Inl (ValueError ''Unknown value for mode'')
          else if boundary_funcs boundary = None then Inl (ValueError ''Unknown boundary option'')
          else if \<not> (y = SameObject) \<and> mode \<noteq> ''psd''
          then Inl (ValueError ''x and y must be equal if mode is stft'')
          else bind_err (resolve_nfft nfft np) (\<lambda>n. Inl e))"
  unfolding spectral_helper_def
  by (simp only: assms Let_def case_prod_beta fst_conv snd_conv bind_err_Inr bind_err_Inl if_False)

lemma engine_noverlap_default:
  assumes "\<not> input_empty x y"
    and "check_nperseg nperseg = Inr np0"
    and "triage_segments window np0 (int (length (fst (equalise_lengths (samples x) y))))
           = Inr (win, np)"
    and "resolve_noverlap noverlap np = resolve_noverlap noverlap' np"
  shows "spectral_helper x y fs window nperseg noverlap nfft detrend return_onesided scaling
           mode boundary padded =
         spectral_helper x y fs window nperseg noverlap' nfft detrend return_onesided scaling
           mode boundary padded"
  unfolding spectral_helper_def
  by (simp only: assms Let_def case_prod_beta fst_conv snd_conv bind_err_Inr bind_err_Inl if_False)

text \<open>
  C6, amended. Take a call of the engine on non-empty input in which the segment triage
  settles on the segment length \<open>nperseg\<close>. When \<open>noverlap\<close> is unspecified the call
  behaves exactly as with \<open>noverlap = nperseg // 2\<close>; and whenever \<open>noverlap \<ge> nperseg\<close>
  the call fails with \<^verbatim>\<open>ValueError\<close>, whatever the detrending, scaling, sample rate,
  sidedness and padding arguments are, that is, before any spectral processing.
\<close>

theorem C6_noverlap:
  assumes "\<not> input_empty x y"
    and "check_nperseg nperseg = Inr np0"
    and "triage_segments window np0 (int (length (fst (equalise_lengths (samples x) y))))
           = Inr (win, np)"
  shows "spectral_helper x y fs window nperseg None nfft detrend return_onesided scaling
           mode boundary padded
         = spectral_helper x y fs window nperseg (Some (np div 2)) nfft detrend return_onesided
             scaling mode boundary padded
       \<and> (\<forall>v \<ge> np. \<exists>m. spectral_helper x y fs window nperseg (Some v) nfft detrend
                           return_onesided scaling mode boundary padded = Inl (ValueError m))"
proof (intro conjI allI impI)
  have "resolve_noverlap None np = resolve_noverlap (Some (np div 2)) np"
    by (simp add: resolve_noverlap_def)
  from engine_noverlap_default [OF assms this]
  show "spectral_helper x y fs window nperseg None nfft detrend return_onesided scaling
           mode boundary padded
         = spectral_helper x y fs window nperseg (Some (np div 2)) nfft detrend return_onesided
             scaling mode boundary padded" .
next
  fix v assume "np \<le> v"
  then have "resolve_noverlap (Some v) np = Inl (ValueError ''noverlap must be less than nperseg.'')"
    by (simp add: resolve_noverlap_def)
  from engine_noverlap_rejected [OF assms this] resolve_nfft_cases [of nfft np]
  show "\<exists>m. spectral_helper x y fs window nperseg (Some v) nfft detrend
                           return_onesided scaling mode boundary padded = Inl (ValueError m)"
    by (auto simp add: bind_err_Inr bind_err_Inl)
qed

text \<open>
  C6, as the claim states it, fails on an empty input: with \<open>nperseg = 8\<close> and
  \<open>noverlap = 8\<close> the engine returns the empty arrays of lines 272--274 and never reaches
  the overlap check.
\<close>

theorem C6_counterexample:
  "spectral_helper (RealSig []) SameObject 1 (WinStr ''hann'') (Some 8) (Some 8) None
     (DetrendStr ''constant'') True ''density'' ''psd'' None False
   = Inr ([], [], RealArr \<lparr>shape = [0], elems = []\<rparr>)"
  by (simp add: spectral_helper_def boundary_funcs_def input_empty_def empty_out_def)

theorem C6_noverlap_witness:
  "\<exists>m. spectral_helper (RealSig [1, 2, 3, 4, 5, 6, 7, 8]) SameObject 1 (WinStr ''hann'')
          (Some 8) (Some 8) None (DetrendStr ''constant'') True ''density'' ''psd'' None False
        = Inl (ValueError m)"
proof -
  obtain w where w: "hann 8 False = Inr w" using hann_length [of 8 False] by auto
  have 1: "\<not> input_empty (RealSig [1, 2, 3, 4, 5, 6, 7, 8]) SameObject"
    by (simp add: input_empty_def)
  have 2: "check_nperseg (Some 8) = Inr (Some 8)" by (simp add: check_nperseg_def)
  have 3: "triage_segments (WinStr ''hann'') (Some 8)
             (int (length (fst (equalise_lengths (samples (RealSig [1, 2, 3, 4, 5, 6, 7, 8])) SameObject))))
           = Inr (w, 8)"
    using w by (simp add: triage_segments_def equalise_lengths_def get_window_def win_equiv_def
        win_equiv_raw_def needs_param_def bind_err_def)
  from C6_noverlap [OF 1 2 3] show ?thesis by simp
qed

subsection \<open>Welch and the cross-spectral density of a signal with itself\<close>

lemma real_part_id: "is_real_arr P \<Longrightarrow> real_part P = P"
  by (cases P) (simp_all add: real_part_def)

lemma engine_same_real:
  assumes "spectral_helper x SameObject fs window nperseg noverlap nfft detrend return_onesided
             scaling ''psd'' boundary padded = Inr (freqs, time, P)"
  shows "is_real_arr P"
  using assms
  by (auto simp add: spectral_helper_def bind_err_Inr_iff finish_def empty_out_def Let_def
      split: if_splits prod.splits)

lemma csd_average_real:
  assumes "csd_average average P = Inr Q" "is_real_arr P"
  shows "is_real_arr Q"
  using assms
  by (cases P) (auto simp add: csd_average_def Let_def np_median_def np_mean_def divide_by_def
      reshape_def split: if_splits)

lemma csd_same_real:
  assumes "csd x SameObject fs window nperseg noverlap nfft detrend return_onesided
             scaling average = Inr (freqs, P)"
  shows "is_real_arr P"
  using assms
  by (auto simp add: csd_def bind_err_Inr_iff dest: engine_same_real csd_average_real)

text \<open>
  C4. For every input \<open>x\<close> and every setting of the shared parameters, \<^verbatim>\<open>welch(x)\<close>
  has exactly the outcome of \<^verbatim>\<open>csd(x, x)\<close> called with the same object twice: the same
  error, or the same pair of frequencies and spectrum. Whenever \<^verbatim>\<open>csd(x, x)\<close> returns,
  its spectrum is already a real array, so taking the real part changes nothing.
\<close>

theorem C4_welch_is_csd_same:
  "welch x fs window nperseg noverlap nfft detrend return_onesided scaling average
     = csd x SameObject fs window nperseg noverlap nfft detrend return_onesided scaling average
   \<and> (\<forall>freqs P. csd x SameObject fs window nperseg noverlap nfft detrend return_onesided
                    scaling average = Inr (freqs, P)
                  \<longrightarrow> is_real_arr P \<and> real_part P = P)"
proof (cases "csd x SameObject fs window nperseg noverlap nfft detrend return_onesided scaling average")
  case (Inl e)
  then show ?thesis by (simp add: welch_def bind_err_def)
next
  case (Inr r)
  obtain freqs P where r: "r = (freqs, P)" by (cases r)
  with Inr have "is_real_arr P" by (auto dest: csd_same_real)
  then show ?thesis using Inr r by (simp add: welch_def bind_err_def real_part_id)
qed

theorem C4_welch_is_csd_same_witness:
  "csd (RealSig [1, 2, 3, 4]) SameObject 1 (WinStr ''hann'') (Some 4) None None
     (DetrendStr ''constant'') True ''density'' ''mean''
   = Inr ([0, 1 / 4, 1 / 2], RealArr \<lparr>shape = [3], elems = [2 / 3, 5 / 3, 0]\<rparr>)
   \<and> welch (RealSig [1, 2, 3, 4]) 1 (WinStr ''hann'') (Some 4) None None
     (DetrendStr ''constant'') True ''density'' ''mean''
   = Inr ([0, 1 / 4, 1 / 2], RealArr \<lparr>shape = [3], elems = [2 / 3, 5 / 3, 0]\<rparr>)"
  using csd_single_segment [of "''mean''"]
    C4_welch_is_csd_same [of "RealSig [1, 2, 3, 4]" 1 "WinStr ''hann''" "Some 4" None None
       "DetrendStr ''constant''" True "''density''" "''mean''"]
  by simp

subsection \<open>Complex input with a one-sided request\<close>

text \<open>
  With a one-sided request, no call on non-empty complex input ever returns.
\<close>

lemma complex_onesided_never_returns:
  assumes "iscomplexobj x \<or> (\<exists>ysig. y = Other ysig \<and> iscomplexobj ysig)"
    and "\<not> input_empty x y"
  shows "\<exists>e. spectral_helper x y fs window nperseg noverlap nfft detrend True scaling
               mode boundary padded = Inl e"
proof (cases "spectral_helper x y fs window nperseg noverlap nfft detrend True scaling
               mode boundary padded")
  case (Inl e)
  then show ?thesis by simp
next
  case (Inr r)
  then have False
    using assms
    by (auto simp add: spectral_helper_def bind_err_Inr_iff choose_sides_def Let_def
        split: if_splits prod.splits yarg.splits)
  then show ?thesis ..
qed

text \<open>
  C5. The claim says that a one-sided request on complex input falls back to a two-sided
  computation with a warning and returns a result. The code raises instead: for the
  complex signal \<open>1+1j, 2, 3, 4\<close> with \<^verbatim>\<open>nperseg=4\<close> and the default
  \<^verbatim>\<open>return_onesided=True\<close>, \<^verbatim>\<open>csd(x, x)\<close>, \<^verbatim>\<open>welch(x)\<close> and \<^verbatim>\<open>csd(r, x)\<close> with a real
  \<open>r\<close> all end in \<^verbatim>\<open>NameError\<close>, because \<^verbatim>\<open>warnings.warn\<close> is called and the module
  never imports \<^verbatim>\<open>warnings\<close>.
\<close>

theorem C5_complex_input_raises:
  "csd (CplxSig [Complex 1 1, 2, 3, 4]) SameObject 1 (WinStr ''hann'') (Some 4) None None
     (DetrendStr ''constant'') True ''density'' ''mean'' = Inl (NameError ''warnings'')
   \<and> welch (CplxSig [Complex 1 1, 2, 3, 4]) 1 (WinStr ''hann'') (Some 4) None None
     (DetrendStr ''constant'') True ''density'' ''mean'' = Inl (NameError ''warnings'')
   \<and> csd (RealSig [1, 2, 3, 4]) (Other (CplxSig [Complex 1 1, 2, 3, 4])) 1 (WinStr ''hann'') (Some 4)
     None None (DetrendStr ''constant'') True ''density'' ''mean'' = Inl (NameError ''warnings'')"
  by (simp add: welch_def csd_def engine_defs Let_def hann4)

subsection \<open>Unsupported averaging methods\<close>

text \<open>
  C7. The claim says that every averaging method other than \<^verbatim>\<open>mean\<close> and \<^verbatim>\<open>median\<close>
  makes \<^verbatim>\<open>csd\<close> fail with \<^verbatim>\<open>ValueError\<close>. The check sits inside the branch for more
  than one segment, so with a single segment it is never made: for the signal
  \<open>1, 2, 3, 4\<close> with \<^verbatim>\<open>nperseg=4\<close> the call with \<^verbatim>\<open>average='foo'\<close> returns the
  frequencies \<open>0, 1/4, 1/2\<close> and the spectrum \<open>2/3, 5/3, 0\<close> of the single segment.
\<close>

theorem C7_unsupported_average_accepted:
  "csd (RealSig [1, 2, 3, 4]) SameObject 1 (WinStr ''hann'') (Some 4) None None
     (DetrendStr ''constant'') True ''density'' ''foo''
   = Inr ([0, 1 / 4, 1 / 2], RealArr \<lparr>shape = [3], elems = [2 / 3, 5 / 3, 0]\<rparr>)"
  by (rule csd_single_segment)

end
